theory Spec2Isabelle
  imports Main
begin

section \<open>JavaScript values\<close>

text \<open>
  Request bodies are parsed JSON, so a field is absent (\<open>undefined\<close>), \<open>null\<close>, a boolean,
  a number, a string, or an object/array.  Numbers are modelled by the integers (the code
  compares them only with \<open>0\<close> and \<open>1\<close>); objects and arrays are opaque, since the
  handlers only test them for truthiness and for their type.  A string is a list of
  8-bit characters, so its \<open>length\<close> is the JavaScript \<open>length\<close> on ASCII text.
\<close>

datatype jsval = JUndefined | JNull | JBool bool | JNum int | JStr string | JObj

fun truthy :: "jsval \<Rightarrow> bool" where
  "truthy JUndefined = False"
| "truthy JNull = False"
| "truthy (JBool b) = b"
| "truthy (JNum n) = (n \<noteq> 0)"
| "truthy (JStr s) = (s \<noteq> [])"
| "truthy JObj = True"

text \<open>\<open>a === b\<close>: equal type and value; two distinct objects are never strictly equal.\<close>

fun strict_eq :: "jsval \<Rightarrow> jsval \<Rightarrow> bool" where
  "strict_eq JObj b = False"
| "strict_eq a b = (a = b)"

text \<open>\<open>a || b\<close>.\<close>

definition js_or :: "jsval \<Rightarrow> jsval \<Rightarrow> jsval" where
  "js_or a b = (if truthy a then a else b)"

text \<open>\<open>String.prototype.toLowerCase\<close> on the ASCII letters.\<close>

definition lower_char :: "char \<Rightarrow> char" where
  "lower_char c =
     (let n = (of_char c :: nat) in if 65 \<le> n \<and> n \<le> 90 then char_of (n + 32) else c)"

definition toLowerCase :: "string \<Rightarrow> string" where
  "toLowerCase s = map lower_char s"

section \<open>OTP code storage\<close>

text \<open>
  \<open>codeStore\<close> is a \<open>Map\<close> from the lower-cased email to \<open>{ code, expiresAt }\<close>.
  Times are milliseconds since the epoch (\<open>Date.now()\<close>), passed in by the caller.
\<close>

record pending =
  code :: string
  expiresAt :: int

type_synonym code_store = "string \<rightharpoonup> pending"

text \<open>\<open>storeCode(email, code)\<close>, with \<open>CODE_TTL\<close> (milliseconds) and the clock as parameters.\<close>

definition storeCode :: "int \<Rightarrow> int \<Rightarrow> string \<Rightarrow> string \<Rightarrow> code_store \<Rightarrow> code_store" where
  "storeCode CODE_TTL now email c cs =
     (let key = toLowerCase email;
          expires = now + CODE_TTL
      in cs(key \<mapsto> \<lparr>code = c, expiresAt = expires\<rparr>))"

text \<open>
  \<open>validateCode(email, code)\<close>: the submitted code is whatever the request body held, and
  is compared with the stored string by \<open>!==\<close>.  Returns the boolean and the store as
  the call leaves it.
\<close>

definition validateCode :: "int \<Rightarrow> string \<Rightarrow> jsval \<Rightarrow> code_store \<Rightarrow> bool \<times> code_store" where
  "validateCode now email submitted cs =
     (let key = toLowerCase email in
      case cs key of
        None \<Rightarrow> (False, cs)
      | Some rec \<Rightarrow>
          if now > expiresAt rec then (False, cs(key := None))
          else if \<not> strict_eq (JStr (code rec)) submitted then (False, cs)
          else (True, cs(key := None)))"

section \<open>Database tables\<close>

text \<open>
  The tables of the PostgreSQL schema that the handlers below read and write, as lists
  of rows in table order, with the \<open>SERIAL\<close> sequences that number new rows.  A nullable
  column is an \<open>option\<close>.  \<open>users.role\<close> holds \<open>'student'\<close>, \<open>'club_admin'\<close> or
  \<open>NULL\<close> (the schema's comment on the column, and the only values any statement of the
  repository writes).  The profile columns hold the JavaScript value handed to the
  driver.  \<open>event_registrations\<close> has the five columns of the schema: \<open>id\<close>,
  \<open>announcement_id\<close>, \<open>user_id\<close>, \<open>registered_at\<close> and \<open>status\<close>.  Columns of the
  other tables that no modelled handler reads or writes are left out.
\<close>

datatype role = student | club_admin

record user_row =
  u_id :: nat
  u_email :: string
  u_password_hash :: "string option"
  u_role :: "role option"
  u_name :: jsval
  u_branch :: jsval
  u_roll_number :: jsval
  u_club_id :: jsval
  u_admin_requested :: bool
  u_requested_at :: "int option"
  u_updated_at :: "int option"

record announcement =
  a_id :: int
  a_registration_enabled :: "bool option"
  a_registration_deadline :: "int option"
  a_max_registrations :: "int option"

record registration =
  r_id :: nat
  r_announcement_id :: int
  r_user_id :: nat
  r_registered_at :: int
  r_status :: string

record world =
  codeStore :: code_store
  users :: "user_row list"
  users_id_seq :: nat
  announcements :: "announcement list"
  event_registrations :: "registration list"
  event_registrations_id_seq :: nat

section \<open>Responses\<close>

text \<open>
  A response is the HTTP status and the JSON body.  \<open>res.json(...)\<close> without
  \<open>res.status(...)\<close> answers 200.  A session token is represented by the payload that
  \<open>jwt.sign\<close> signs, which is also what the body repeats under \<open>user\<close>; the
  flag is the body's \<open>created\<close>.
\<close>

record registration_info =
  registration_enabled :: bool
  current_count :: nat
  max_registrations :: "int option"
  is_full :: jsval
  deadline :: "int option"
  deadline_passed :: jsval

datatype body =
    Error string
  | CodeSent "string option"
  | Session string "role option" bool
  | Registered bool
  | Info registration_info
  | ProfileSaved "user_row option"

datatype response = Response (http_status: nat) (http_body: body)

text \<open>What the driver returns for a \<open>BOOLEAN\<close> and for an \<open>INTEGER\<close> column.\<close>

fun js_of_boolean :: "bool option \<Rightarrow> jsval" where
  "js_of_boolean None = JNull"
| "js_of_boolean (Some b) = JBool b"

fun js_of_integer :: "int option \<Rightarrow> jsval" where
  "js_of_integer None = JNull"
| "js_of_integer (Some n) = JNum n"

text \<open>\<open>a && b\<close>.\<close>

definition js_and :: "jsval \<Rightarrow> jsval \<Rightarrow> jsval" where
  "js_and a b = (if truthy a then b else a)"

subsection \<open>db.js: user functions\<close>

definition findUserByEmail :: "string \<Rightarrow> world \<Rightarrow> user_row option" where
  "findUserByEmail email w = find (\<lambda>u. u_email u = toLowerCase email) (users w)"

definition createUser :: "int \<Rightarrow> string \<Rightarrow> string option \<Rightarrow> role option \<Rightarrow> world \<Rightarrow> world" where
  "createUser now email passwordHash r w =
     w\<lparr>users := users w @
          [\<lparr>u_id = users_id_seq w, u_email = toLowerCase email, u_password_hash = passwordHash,
            u_role = r, u_name = JNull, u_branch = JNull, u_roll_number = JNull,
            u_club_id = JNull, u_admin_requested = False, u_requested_at = None,
            u_updated_at = Some now\<rparr>],
       users_id_seq := Suc (users_id_seq w)\<rparr>"

text \<open>
  \<open>updateProfile(email, { name, branch, roll_number, role, club_id, request_admin })\<close>:
  one of three \<open>UPDATE\<close> statements, each on the rows \<open>WHERE email = $n\<close>.
\<close>

definition updateProfile ::
  "int \<Rightarrow> string \<Rightarrow> jsval \<Rightarrow> jsval \<Rightarrow> jsval \<Rightarrow> role option \<Rightarrow> jsval \<Rightarrow> bool \<Rightarrow> world \<Rightarrow> world" where
  "updateProfile now email nm br rn r cid request_admin w =
     (if request_admin then
        w\<lparr>users := map (\<lambda>u. if u_email u = toLowerCase email
                 then u\<lparr>u_name := nm, u_branch := br, u_roll_number := rn, u_club_id := cid,
                        u_admin_requested := True, u_requested_at := Some now,
                        u_updated_at := Some now\<rparr>
                 else u) (users w)\<rparr>
      else if r \<noteq> None then
        w\<lparr>users := map (\<lambda>u. if u_email u = toLowerCase email
                 then u\<lparr>u_name := nm, u_branch := br, u_roll_number := rn, u_role := r,
                        u_updated_at := Some now\<rparr>
                 else u) (users w)\<rparr>
      else
        w\<lparr>users := map (\<lambda>u. if u_email u = toLowerCase email
                 then u\<lparr>u_name := nm, u_branch := br, u_roll_number := rn,
                        u_updated_at := Some now\<rparr>
                 else u) (users w)\<rparr>)"

definition updatePassword :: "int \<Rightarrow> string \<Rightarrow> string \<Rightarrow> world \<Rightarrow> world" where
  "updatePassword now email passwordHash w =
     w\<lparr>users := map (\<lambda>u. if u_email u = toLowerCase email
              then u\<lparr>u_password_hash := Some passwordHash, u_updated_at := Some now\<rparr>
              else u) (users w)\<rparr>"

section \<open>index.js: authentication routes\<close>

text \<open>
  \<open>POST /auth/send-code\<close> (the handler behind the rate limiter).  Parameters: \<open>CODE_TTL\<close>
  and \<open>DEV_FALLBACK\<close> from the configuration, the clock, the code that
  \<open>generateCode()\<close> drew, and whether \<open>transporter.sendMail\<close> resolved.
\<close>

definition auth_send_code ::
  "int \<Rightarrow> bool \<Rightarrow> int \<Rightarrow> string \<Rightarrow> bool \<Rightarrow> jsval \<Rightarrow> world \<Rightarrow> response \<times> world" where
  "auth_send_code CODE_TTL DEV_FALLBACK now c delivered email w =
     (case email of
        JStr e \<Rightarrow>
          if \<not> truthy email then (Response 400 (Error ''email required''), w)
          else
            let w1 = w\<lparr>codeStore := storeCode CODE_TTL now e c (codeStore w)\<rparr> in
            if delivered then (Response 200 (CodeSent None), w1)
            else if DEV_FALLBACK then (Response 200 (CodeSent (Some c)), w1)
            else (Response 500 (Error ''failed to send email''), w1)
      | _ \<Rightarrow> (Response 400 (Error ''email required''), w))"

text \<open>
  \<open>POST /auth/verify\<close> with body \<open>{ email, code, password, confirm }\<close>; \<open>hash\<close> is what
  \<open>bcrypt.hash(password, 10)\<close> resolves to.  A truthy \<open>email\<close> that is not a string has
  no \<open>toLowerCase\<close>: \<open>validateCode\<close> throws and the \<open>catch\<close> answers 500.
\<close>

definition auth_verify ::
  "int \<Rightarrow> string \<Rightarrow> jsval \<Rightarrow> jsval \<Rightarrow> jsval \<Rightarrow> jsval \<Rightarrow> world \<Rightarrow> response \<times> world" where
  "auth_verify now hash email c password confirm w =
     (if \<not> truthy email \<or> \<not> truthy c then
        (Response 400 (Error ''email and code required''), w)
      else case email of
        JStr e \<Rightarrow>
          let (ok, cs) = validateCode now e c (codeStore w);
              w1 = w\<lparr>codeStore := cs\<rparr>
          in
          if \<not> ok then (Response 401 (Error ''invalid or expired code''), w1)
          else
            let key = toLowerCase e;
                existing = findUserByEmail key w1
            in
            if password \<noteq> JUndefined then
              (case password of
                 JStr p \<Rightarrow>
                   if length p < 6 then
                     (Response 400 (Error ''password must be at least 6 characters''), w1)
                   else if \<not> strict_eq password confirm then
                     (Response 400 (Error ''password and confirm do not match''), w1)
                   else
                     (case existing of
                        Some u \<Rightarrow>
                          (Response 200 (Session key (u_role u) False),
                           updatePassword now key hash w1)
                      | None \<Rightarrow>
                          (Response 200 (Session key None True),
                           createUser now key (Some hash) None w1))
               | _ \<Rightarrow> (Response 400 (Error ''password must be at least 6 characters''), w1))
            else
              (case existing of
                 Some u \<Rightarrow> (Response 200 (Session key (u_role u) False), w1)
               | None \<Rightarrow> (Response 200 (Session key None False), createUser now key None None w1))
      | _ \<Rightarrow> (Response 500 (Error ''server error''), w))"

section \<open>index.js: profile route\<close>

text \<open>\<open>auth.split(' ')\<close>.\<close>

fun split_space :: "string \<Rightarrow> string list" where
  "split_space [] = [[]]"
| "split_space (c # cs) =
     (if c = CHR '' '' then [] # split_space cs
      else (case split_space cs of [] \<Rightarrow> [[c]] | p # ps \<Rightarrow> (c # p) # ps))"

text \<open>
  \<open>POST /profile\<close>.  \<open>jwt_verify now token\<close> gives the \<open>sub\<close> claim of a token that
  \<open>jwt.verify\<close> accepts at that time and \<open>None\<close> where it throws; every throw inside the handler
  (a missing second part of the header, a rejected token, \<open>currentUser\<close> being
  \<open>null\<close>) ends in the \<open>catch\<close>, which answers 500.  The notification mail to the
  coordinator is not awaited and touches no table.
\<close>

definition post_profile ::
  "(int \<Rightarrow> string \<Rightarrow> string option) \<Rightarrow> int \<Rightarrow> string option \<Rightarrow>
   jsval \<Rightarrow> jsval \<Rightarrow> jsval \<Rightarrow> jsval \<Rightarrow> jsval \<Rightarrow> world \<Rightarrow> response \<times> world" where
  "post_profile jwt_verify now auth nm br rn rl cid w =
     (case auth of
        None \<Rightarrow> (Response 401 (Error ''missing token''), w)
      | Some h \<Rightarrow>
          if h = [] then (Response 401 (Error ''missing token''), w)
          else if length (split_space h) < 2 then (Response 500 (Error ''server error''), w)
          else (case jwt_verify now (split_space h ! 1) of
            None \<Rightarrow> (Response 500 (Error ''server error''), w)
          | Some sub \<Rightarrow>
              let email = toLowerCase sub in
              (case findUserByEmail email w of
                 None \<Rightarrow> (Response 500 (Error ''server error''), w)
               | Some currentUser \<Rightarrow>
                   let w1 =
                     (if truthy rl \<and> u_role currentUser = None then
                        (if strict_eq rl (JStr ''student'') then
                           updateProfile now email (js_or nm JNull) (js_or br JNull)
                             (js_or rn JNull) (Some student) JNull False w
                         else if strict_eq rl (JStr ''club_admin'') then
                           updateProfile now email (js_or nm JNull) (js_or br JNull)
                             (js_or rn JNull) None (js_or cid JNull) True w
                         else w)
                      else
                        updateProfile now email (js_or nm JNull) (js_or br JNull)
                          (js_or rn JNull) None JNull False w)
                   in (Response 200 (ProfileSaved (findUserByEmail email w1)), w1))))"

section \<open>index.js: event registration routes\<close>

text \<open>
  \<open>authMiddleware\<close>: the request goes on with \<open>req.userEmail\<close> set to the token's
  \<open>sub\<close>, or is answered 401.
\<close>

definition authMiddleware ::
  "(int \<Rightarrow> string \<Rightarrow> string option) \<Rightarrow> int \<Rightarrow> string option \<Rightarrow> response + string" where
  "authMiddleware jwt_verify now auth =
     (case auth of
        None \<Rightarrow> Inl (Response 401 (Error ''missing token''))
      | Some h \<Rightarrow>
          if h = [] then Inl (Response 401 (Error ''missing token''))
          else
            let parts = split_space h in
            if length parts \<noteq> 2 \<or> parts ! 0 \<noteq> ''Bearer'' then
              Inl (Response 401 (Error ''invalid auth header''))
            else
              (case jwt_verify now (parts ! 1) of
                 None \<Rightarrow> Inl (Response 401 (Error ''invalid token''))
               | Some sub \<Rightarrow> Inr sub))"

text \<open>The two \<open>SELECT\<close>s on \<open>event_registrations\<close>.\<close>

definition registeredCount :: "int \<Rightarrow> world \<Rightarrow> nat" where
  "registeredCount announcementId w =
     length (filter (\<lambda>r. r_announcement_id r = announcementId \<and> r_status r = ''registered'')
       (event_registrations w))"

definition registrationsOf :: "int \<Rightarrow> nat \<Rightarrow> world \<Rightarrow> registration list" where
  "registrationsOf announcementId uid w =
     filter (\<lambda>r. r_announcement_id r = announcementId \<and> r_user_id r = uid)
       (event_registrations w)"

text \<open>
  The handler of \<open>POST /announcements/:announcementId/register\<close>, entered after
  \<open>authMiddleware\<close> with \<open>req.userEmail\<close>; \<open>announcementId\<close> is the parsed path
  parameter.  The block that looks for an existing row and updates or inserts lies
  inside \<open>if (announcement.max_registrations) { ... }\<close>, as in the source.  The
  \<open>INSERT\<close> names the columns \<open>user_email\<close>, \<open>user_name\<close>, \<open>roll_number\<close> and
  \<open>branch\<close>, which \<open>event_registrations\<close> does not have: the database rejects the
  statement, \<open>pool.query\<close> throws, and the handler's \<open>catch\<close> answers 500 with
  nothing written.
\<close>

definition register :: "int \<Rightarrow> string \<Rightarrow> int \<Rightarrow> world \<Rightarrow> response \<times> world" where
  "register now userEmail announcementId w =
     (case findUserByEmail userEmail w of
        None \<Rightarrow> (Response 404 (Error ''User not found''), w)
      | Some user \<Rightarrow>
         (case filter (\<lambda>a. a_id a = announcementId) (announcements w) of
            [] \<Rightarrow> (Response 404 (Error ''Event not found''), w)
          | announcement # _ \<Rightarrow>
              if \<not> truthy (js_of_boolean (a_registration_enabled announcement)) then
                (Response 400 (Error ''Registration not enabled for this event''), w)
              else if (case a_registration_deadline announcement of
                         None \<Rightarrow> False | Some d \<Rightarrow> now > d) then
                (Response 400 (Error ''Registration deadline has passed''), w)
              else
                (case a_max_registrations announcement of
                   None \<Rightarrow> (Response 200 (Registered True), w)
                 | Some m \<Rightarrow>
                     if \<not> truthy (JNum m) then (Response 200 (Registered True), w)
                     else if int (registeredCount announcementId w) \<ge> m then
                       (Response 400 (Error ''Event is full. Maximum registrations reached.''), w)
                     else
                       (case registrationsOf announcementId (u_id user) w of
                          existing # _ \<Rightarrow>
                            if r_status existing = ''registered'' then
                              (Response 400 (Error ''Already registered for this event''), w)
                            else
                              (Response 200 (Registered True),
                               w\<lparr>event_registrations :=
                                   map (\<lambda>r. if r_id r = r_id existing
                                          then r\<lparr>r_status := ''registered'', r_registered_at := now\<rparr>
                                          else r) (event_registrations w)\<rparr>)
                        | [] \<Rightarrow> (Response 500 (Error ''Failed to register''), w)))))"

text \<open>The handler of \<open>POST /announcements/:announcementId/unregister\<close>.\<close>

definition unregister :: "string \<Rightarrow> int \<Rightarrow> world \<Rightarrow> response \<times> world" where
  "unregister userEmail announcementId w =
     (case findUserByEmail userEmail w of
        None \<Rightarrow> (Response 404 (Error ''User not found''), w)
      | Some user \<Rightarrow>
          let hit = (\<lambda>r. r_announcement_id r = announcementId \<and> r_user_id r = u_id user
                          \<and> r_status r = ''registered'');
              rowCount = length (filter hit (event_registrations w));
              w1 = w\<lparr>event_registrations :=
                      map (\<lambda>r. if hit r then r\<lparr>r_status := ''cancelled''\<rparr> else r)
                        (event_registrations w)\<rparr>
          in
          if rowCount = 0 then (Response 404 (Error ''Registration not found''), w1)
          else (Response 200 (Registered False), w1))"

text \<open>The handler of \<open>GET /announcements/:announcementId/registration-status\<close>.\<close>

definition registration_status :: "string \<Rightarrow> int \<Rightarrow> world \<Rightarrow> response" where
  "registration_status userEmail announcementId w =
     (case findUserByEmail userEmail w of
        None \<Rightarrow> Response 200 (Registered False)
      | Some user \<Rightarrow>
          (case registrationsOf announcementId (u_id user) w of
             [] \<Rightarrow> Response 200 (Registered False)
           | r # _ \<Rightarrow> Response 200 (Registered (r_status r = ''registered''))))"

text \<open>\<open>GET /announcements/:announcementId/registration-info\<close>.\<close>

definition registration_info :: "int \<Rightarrow> int \<Rightarrow> world \<Rightarrow> response" where
  "registration_info now announcementId w =
     (case filter (\<lambda>a. a_id a = announcementId) (announcements w) of
        [] \<Rightarrow> Response 404 (Error ''Event not found'')
      | announcement # _ \<Rightarrow>
          let currentCount = registeredCount announcementId w;
              isFull = js_and (js_of_integer (a_max_registrations announcement))
                         (JBool (case a_max_registrations announcement of
                                   None \<Rightarrow> False | Some m \<Rightarrow> int currentCount \<ge> m));
              deadlinePassed =
                (case a_registration_deadline announcement of
                   None \<Rightarrow> JNull | Some d \<Rightarrow> JBool (now > d))
          in Response 200 (Info
               \<lparr>registration_enabled =
                  strict_eq (js_of_boolean (a_registration_enabled announcement)) (JNum 1),
                current_count = currentCount,
                max_registrations = a_max_registrations announcement,
                is_full = isFull,
                deadline = a_registration_deadline announcement,
                deadline_passed = deadlinePassed\<rparr>))"

text \<open>The routes as registered: \<open>app.post(path, authMiddleware, handler)\<close>.\<close>

definition post_register ::
  "(int \<Rightarrow> string \<Rightarrow> string option) \<Rightarrow> int \<Rightarrow> string option \<Rightarrow> int \<Rightarrow> world \<Rightarrow> response \<times> world" where
  "post_register jwt_verify now auth announcementId w =
     (case authMiddleware jwt_verify now auth of
        Inl r \<Rightarrow> (r, w)
      | Inr userEmail \<Rightarrow> register now userEmail announcementId w)"

definition post_unregister ::
  "(int \<Rightarrow> string \<Rightarrow> string option) \<Rightarrow> int \<Rightarrow> string option \<Rightarrow> int \<Rightarrow> world \<Rightarrow> response \<times> world" where
  "post_unregister jwt_verify now auth announcementId w =
     (case authMiddleware jwt_verify now auth of
        Inl r \<Rightarrow> (r, w)
      | Inr userEmail \<Rightarrow> unregister userEmail announcementId w)"

section \<open>Sequences of requests\<close>


record profile_request =
  q_now :: int
  q_auth :: "string option"
  q_name :: jsval
  q_branch :: jsval
  q_roll_number :: jsval
  q_role :: jsval
  q_club_id :: jsval

fun post_profile_all ::
  "(int \<Rightarrow> string \<Rightarrow> string option) \<Rightarrow> profile_request list \<Rightarrow> world \<Rightarrow> world" where
  "post_profile_all jwt_verify [] w = w"
| "post_profile_all jwt_verify (q # qs) w =
     post_profile_all jwt_verify qs
       (snd (post_profile jwt_verify (q_now q) (q_auth q) (q_name q) (q_branch q)
               (q_roll_number q) (q_role q) (q_club_id q) w))"

section \<open>Constraints of the schema\<close>

text \<open>
  \<open>users.email\<close> is \<open>UNIQUE\<close>; \<open>event_registrations.id\<close> is a \<open>SERIAL PRIMARY KEY\<close>
  and the table is \<open>UNIQUE(announcement_id, user_id)\<close>.
\<close>

definition users_constraints :: "world \<Rightarrow> bool" where
  "users_constraints w = distinct (map u_email (users w))"


section \<open>Concrete states\<close>

text \<open>
  Three students; announcement 7 takes one registration until time 5000, announcement 8
  has registration enabled with neither deadline nor capacity; a code is pending for
  the first student.
\<close>

definition user_a :: user_row where
  "user_a = \<lparr>u_id = 1, u_email = ''a@x.edu'', u_password_hash = None, u_role = None,
     u_name = JNull, u_branch = JNull, u_roll_number = JNull, u_club_id = JNull,
     u_admin_requested = False, u_requested_at = None, u_updated_at = None\<rparr>"

definition user_b :: user_row where
  "user_b = \<lparr>u_id = 2, u_email = ''b@x.edu'', u_password_hash = None, u_role = Some student,
     u_name = JNull, u_branch = JNull, u_roll_number = JNull, u_club_id = JNull,
     u_admin_requested = False, u_requested_at = None, u_updated_at = None\<rparr>"

definition user_c :: user_row where
  "user_c = \<lparr>u_id = 3, u_email = ''c@x.edu'', u_password_hash = None, u_role = Some student,
     u_name = JNull, u_branch = JNull, u_roll_number = JNull, u_club_id = JNull,
     u_admin_requested = False, u_requested_at = None, u_updated_at = None\<rparr>"

definition event_7 :: announcement where
  "event_7 = \<lparr>a_id = 7, a_registration_enabled = Some True,
     a_registration_deadline = Some 5000, a_max_registrations = Some 1\<rparr>"

definition event_8 :: announcement where
  "event_8 = \<lparr>a_id = 8, a_registration_enabled = Some True,
     a_registration_deadline = None, a_max_registrations = None\<rparr>"

definition campus :: world where
  "campus = \<lparr>codeStore = [''a@x.edu'' \<mapsto> \<lparr>code = ''123456'', expiresAt = 300000\<rparr>],
     users = [user_a, user_b, user_c], users_id_seq = 4,
     announcements = [event_7, event_8],
     event_registrations = [], event_registrations_id_seq = 1\<rparr>"

definition campus_roster :: world where
  "campus_roster = campus\<lparr>event_registrations :=
       [\<lparr>r_id = 1, r_announcement_id = 7, r_user_id = 1, r_registered_at = 100,
          r_status = ''registered''\<rparr>,
        \<lparr>r_id = 2, r_announcement_id = 7, r_user_id = 2, r_registered_at = 200,
          r_status = ''cancelled''\<rparr>],
     event_registrations_id_seq := 3\<rparr>"

definition bob_requests :: "profile_request list" where
  "bob_requests =
     [\<lparr>q_now = 10, q_auth = Some ''Bearer tok-b@x.edu'', q_name = JStr ''Bob'',
       q_branch = JNull, q_roll_number = JNull, q_role = JStr ''club_admin'',
       q_club_id = JNum 3\<rparr>,
      \<lparr>q_now = 20, q_auth = Some ''Bearer tok-b@x.edu'', q_name = JStr ''Bob'',
       q_branch = JNull, q_roll_number = JNull, q_role = JStr ''student'',
       q_club_id = JNull\<rparr>]"





text \<open>A token is its subject's address prefixed by \<open>tok-\<close>, and never expires.\<close>

definition tokens :: "int \<Rightarrow> string \<Rightarrow> string option" where
  "tokens now t = (if take 4 t = ''tok-'' then Some (drop 4 t) else None)"

section \<open>Evaluation of lower-casing on the literals used below\<close>

lemma lower_A_x_edu: "toLowerCase ''A@x.edu'' = ''a@x.edu''"
  by code_simp

lemma lower_a_X_edu: "toLowerCase ''a@X.edu'' = ''a@x.edu''"
  by code_simp

lemma lower_a_x_edu: "toLowerCase ''a@x.edu'' = ''a@x.edu''"
  by code_simp

lemma lower_b_x_edu: "toLowerCase ''b@x.edu'' = ''b@x.edu''"
  by code_simp

lemma lower_c_x_edu: "toLowerCase ''c@x.edu'' = ''c@x.edu''"
  by code_simp

section \<open>The OTP ledger\<close>

text \<open>
  C3: \<open>validateCode\<close> returns false when no record is pending for the email; returns false
  and deletes the record when the clock is strictly after the expiry; returns false and
  keeps the record when the codes differ; on an exact match not after the expiry it
  deletes the record and returns true.  Hence a second call with the same code, at any
  later time, returns false.
\<close>

theorem validateCode_cases:
  "(cs (toLowerCase email) = None \<longrightarrow>
      validateCode now email submitted cs = (False, cs))
   \<and> (cs (toLowerCase email) = Some rec \<and> now > expiresAt rec \<longrightarrow>
      validateCode now email submitted cs = (False, cs(toLowerCase email := None)))
   \<and> (cs (toLowerCase email) = Some rec \<and> \<not> now > expiresAt rec \<and> submitted \<noteq> JStr (code rec) \<longrightarrow>
      validateCode now email submitted cs = (False, cs))
   \<and> (cs (toLowerCase email) = Some rec \<and> \<not> now > expiresAt rec \<and> submitted = JStr (code rec) \<longrightarrow>
      validateCode now email submitted cs = (True, cs(toLowerCase email := None))
      \<and> fst (validateCode now' email submitted (snd (validateCode now email submitted cs))) = False)"
  by (auto simp: validateCode_def Let_def)

theorem validateCode_cases_witness:
  "validateCode 10 ''A@x.edu'' (JStr ''123456'') Map.empty = (False, Map.empty)
   \<and> fst (validateCode 301 ''A@x.edu'' (JStr ''123456'')
        (storeCode 300 0 ''a@X.edu'' ''123456'' Map.empty)) = False
   \<and> snd (validateCode 301 ''A@x.edu'' (JStr ''123456'')
        (storeCode 300 0 ''a@X.edu'' ''123456'' Map.empty)) ''a@x.edu'' = None
   \<and> fst (validateCode 10 ''A@x.edu'' (JNum 123456)
        (storeCode 300 0 ''a@X.edu'' ''123456'' Map.empty)) = False
   \<and> snd (validateCode 10 ''A@x.edu'' (JNum 123456)
        (storeCode 300 0 ''a@X.edu'' ''123456'' Map.empty)) ''a@x.edu''
      = Some \<lparr>code = ''123456'', expiresAt = 300\<rparr>
   \<and> fst (validateCode 300 ''A@x.edu'' (JStr ''123456'')
        (storeCode 300 0 ''a@X.edu'' ''123456'' Map.empty)) = True
   \<and> fst (validateCode 300 ''A@x.edu'' (JStr ''123456'')
        (snd (validateCode 300 ''A@x.edu'' (JStr ''123456'')
          (storeCode 300 0 ''a@X.edu'' ''123456'' Map.empty)))) = False"
  using
    validateCode_cases [where cs = Map.empty and email = "''A@x.edu''" and now = 10
      and submitted = "JStr ''123456''"]
    validateCode_cases [where cs = "storeCode 300 0 ''a@X.edu'' ''123456'' Map.empty"
      and email = "''A@x.edu''" and rec = "\<lparr>code = ''123456'', expiresAt = 300\<rparr>"
      and now = 301 and submitted = "JStr ''123456''"]
    validateCode_cases [where cs = "storeCode 300 0 ''a@X.edu'' ''123456'' Map.empty"
      and email = "''A@x.edu''" and rec = "\<lparr>code = ''123456'', expiresAt = 300\<rparr>"
      and now = 10 and submitted = "JNum 123456"]
    validateCode_cases [where cs = "storeCode 300 0 ''a@X.edu'' ''123456'' Map.empty"
      and email = "''A@x.edu''" and rec = "\<lparr>code = ''123456'', expiresAt = 300\<rparr>"
      and now = 300 and submitted = "JStr ''123456''" and now' = 300]
  by (auto simp add: storeCode_def lower_A_x_edu lower_a_X_edu Let_def)

section \<open>Verification: sending and verifying codes\<close>

lemma auth_send_code_snd:
  "e \<noteq> [] \<Longrightarrow> snd (auth_send_code CODE_TTL DEV_FALLBACK now c delivered (JStr e) w)
     = w\<lparr>codeStore := (codeStore w)(toLowerCase e \<mapsto> \<lparr>code = c, expiresAt = now + CODE_TTL\<rparr>)\<rparr>"
  by (simp add: auth_send_code_def storeCode_def Let_def)

lemma validateCode_match:
  "cs (toLowerCase e) = Some rec \<Longrightarrow> \<not> now > expiresAt rec \<Longrightarrow>
   validateCode now e (JStr (code rec)) cs = (True, cs(toLowerCase e := None))"
  by (simp add: validateCode_def)

lemma validateCode_absent:
  "cs (toLowerCase e) = None \<Longrightarrow> validateCode now e c cs = (False, cs)"
  by (simp add: validateCode_def)

lemma auth_verify_bad_password_snd:
  assumes "password \<noteq> JUndefined"
    and "(\<forall>p. password = JStr p \<longrightarrow> length p < 6) \<or> password \<noteq> confirm"
  shows "snd (auth_verify now hash email c password confirm w)
           = (case email of
                JStr e \<Rightarrow> if e = [] \<or> \<not> truthy c then w
                          else w\<lparr>codeStore := snd (validateCode now e c (codeStore w))\<rparr>
              | _ \<Rightarrow> w)"
proof (cases email)
  case (JStr e)
  show ?thesis
  proof (cases password)
    case (JStr p)
    with assms \<open>email = JStr e\<close> show ?thesis
      by (auto simp add: auth_verify_def case_prod_beta Let_def)
  qed (use assms \<open>email = JStr e\<close> in \<open>simp_all add: auth_verify_def case_prod_beta Let_def\<close>)
qed (simp_all add: auth_verify_def)

lemma auth_verify_bad_password_fst:
  assumes "password \<noteq> JUndefined"
    and "(\<forall>p. password = JStr p \<longrightarrow> length p < 6) \<or> password \<noteq> confirm"
    and "e \<noteq> []" and "truthy c" and "fst (validateCode now e c (codeStore w))"
  shows "http_status (fst (auth_verify now hash (JStr e) c password confirm w)) = 400"
proof (cases password)
  case (JStr p)
  with assms show ?thesis
    by (auto simp add: auth_verify_def case_prod_beta Let_def)
qed (use assms in \<open>simp_all add: auth_verify_def case_prod_beta Let_def\<close>)

lemma auth_verify_invalid:
  "e \<noteq> [] \<Longrightarrow> truthy c \<Longrightarrow> \<not> fst (validateCode now e c (codeStore v)) \<Longrightarrow>
   fst (auth_verify now hash (JStr e) c password confirm v)
     = Response 401 (Error ''invalid or expired code'')"
  by (simp add: auth_verify_def case_prod_beta)

lemma auth_verify_good_password:
  "e \<noteq> [] \<Longrightarrow> truthy c \<Longrightarrow> fst (validateCode now e c (codeStore v)) \<Longrightarrow> 6 \<le> length p \<Longrightarrow>
   http_status (fst (auth_verify now hash (JStr e) c (JStr p) (JStr p) v)) = 200"
  by (simp add: auth_verify_def case_prod_beta Let_def split: option.split)

text \<open>
  C9: \<open>/auth/send-code\<close> stores the code before it tries to deliver it.  When delivery
  fails and the dev fallback is off the answer is 500, the code is in the store all the
  same, with expiry \<open>now + CODE_TTL\<close>, and \<open>validateCode\<close> accepts it at every time up
  to that expiry.
\<close>

theorem send_code_failure_keeps_code:
  "e \<noteq> [] \<Longrightarrow>
   fst (auth_send_code CODE_TTL False now c False (JStr e) w)
     = Response 500 (Error ''failed to send email'')
   \<and> snd (auth_send_code CODE_TTL False now c False (JStr e) w)
     = w\<lparr>codeStore := storeCode CODE_TTL now e c (codeStore w)\<rparr>
   \<and> codeStore (snd (auth_send_code CODE_TTL False now c False (JStr e) w)) (toLowerCase e)
     = Some \<lparr>code = c, expiresAt = now + CODE_TTL\<rparr>
   \<and> (\<forall>now'. now' \<le> now + CODE_TTL \<longrightarrow>
        fst (validateCode now' e (JStr c)
          (codeStore (snd (auth_send_code CODE_TTL False now c False (JStr e) w)))) = True)"
  by (simp add: auth_send_code_def storeCode_def validateCode_def Let_def)

theorem send_code_failure_keeps_code_witness:
  "fst (auth_send_code 300000 False 1000 ''654321'' False (JStr ''b@x.edu'') campus)
     = Response 500 (Error ''failed to send email'')
   \<and> fst (validateCode 301000 ''b@x.edu'' (JStr ''654321'')
          (codeStore (snd (auth_send_code 300000 False 1000 ''654321'' False (JStr ''b@x.edu'') campus)))) = True"
  using send_code_failure_keeps_code [where e = "''b@x.edu''" and CODE_TTL = 300000 and now = 1000
     and c = "''654321''" and w = campus]
  by auto

text \<open>
  C8: in \<open>/auth/verify\<close> with a password present (not \<open>undefined\<close>) that is not a string
  of at least 6 characters, or that differs from \<open>confirm\<close>, the \<open>users\<close> table is
  left as it was, whatever the email and code; when the email and code pass
  \<open>validateCode\<close> the answer is 400; and replaying the same request, at any time,
  leaves the table as it was.
\<close>

theorem verify_rejects_bad_password:
  assumes "password \<noteq> JUndefined"
    and "(\<forall>p. password = JStr p \<longrightarrow> length p < 6) \<or> password \<noteq> confirm"
  shows "users (snd (auth_verify now hash email c password confirm w)) = users w
    \<and> users_id_seq (snd (auth_verify now hash email c password confirm w)) = users_id_seq w
    \<and> ((\<exists>e. email = JStr e \<and> e \<noteq> [] \<and> truthy c \<and> fst (validateCode now e c (codeStore w)))
         \<longrightarrow> http_status (fst (auth_verify now hash email c password confirm w)) = 400)
    \<and> users (snd (auth_verify now' hash' email c password confirm
          (snd (auth_verify now hash email c password confirm w)))) = users w"
proof -
  have unchanged: "users (snd (auth_verify t h email c password confirm v)) = users v
      \<and> users_id_seq (snd (auth_verify t h email c password confirm v)) = users_id_seq v"
    for t h v
    by (simp add: auth_verify_bad_password_snd [OF assms] split: jsval.split)
  have rejected: "http_status (fst (auth_verify now hash email c password confirm w)) = 400"
    if "email = JStr e" "e \<noteq> []" "truthy c" "fst (validateCode now e c (codeStore w))" for e
    using auth_verify_bad_password_fst [OF assms that(2,3,4)] that(1) by simp
  have replay: "users (snd (auth_verify now' hash' email c password confirm
          (snd (auth_verify now hash email c password confirm w)))) = users w"
    using unchanged [of now' hash' "snd (auth_verify now hash email c password confirm w)"]
      unchanged [of now hash w] by simp
  from unchanged [of now hash w] rejected replay show ?thesis by blast
qed

theorem verify_rejects_bad_password_witness:
  "http_status (fst (auth_verify 1000 ''hash'' (JStr ''a@x.edu'') (JStr ''123456'')
      (JStr ''abc'') (JStr ''abc'') campus)) = 400
   \<and> users (snd (auth_verify 1000 ''hash'' (JStr ''a@x.edu'') (JStr ''123456'')
      (JStr ''abc'') (JStr ''abc'') campus)) = users campus
   \<and> users (snd (auth_verify 2000 ''hash'' (JStr ''a@x.edu'') (JStr ''123456'')
      (JStr ''abc'') (JStr ''abc'')
      (snd (auth_verify 1000 ''hash'' (JStr ''a@x.edu'') (JStr ''123456'')
        (JStr ''abc'') (JStr ''abc'') campus)))) = users campus"
proof -
  have present: "JStr ''abc'' \<noteq> JUndefined" by simp
  have short: "(\<forall>p. JStr ''abc'' = JStr p \<longrightarrow> length p < 6) \<or> JStr ''abc'' \<noteq> JStr ''abc''" by simp
  have valid: "\<exists>e. JStr ''a@x.edu'' = JStr e \<and> e \<noteq> [] \<and> truthy (JStr ''123456'')
      \<and> fst (validateCode 1000 e (JStr ''123456'') (codeStore campus))"
    by (simp add: validateCode_def campus_def lower_a_x_edu)
  from verify_rejects_bad_password [OF present short, where now = 1000 and hash = "''hash''"
      and email = "JStr ''a@x.edu''" and c = "JStr ''123456''" and w = campus
      and now' = 2000 and hash' = "''hash''"] valid
  show ?thesis by blast
qed

text \<open>
  C10: \<open>/auth/verify\<close> calls \<open>validateCode\<close> before it looks at the password.  With
  a pending, unexpired, matching code and a password that is too short or differs from
  \<open>confirm\<close>, the answer is 400 and the code is gone; every retry with that code, with
  any password, is answered 401; after \<open>/auth/send-code\<close> has stored a new code, a
  request with the new code and an acceptable password is answered 200.
\<close>

theorem verify_consumes_code_before_password_check:
  assumes "codeStore w (toLowerCase e) = Some rec"
    and "\<not> now > expiresAt rec"
    and "code rec = c"
    and "c \<noteq> []"
    and "e \<noteq> []"
    and "password \<noteq> JUndefined"
    and "(\<forall>p. password = JStr p \<longrightarrow> length p < 6) \<or> password \<noteq> confirm"
  shows "http_status (fst (auth_verify now hash (JStr e) (JStr c) password confirm w)) = 400
    \<and> codeStore (snd (auth_verify now hash (JStr e) (JStr c) password confirm w)) (toLowerCase e) = None
    \<and> (\<forall>now' hash' password' confirm'.
          fst (auth_verify now' hash' (JStr e) (JStr c) password' confirm'
                (snd (auth_verify now hash (JStr e) (JStr c) password confirm w)))
            = Response 401 (Error ''invalid or expired code''))
    \<and> (\<forall>CODE_TTL DEV_FALLBACK t2 c2 delivered t3 hash2 p.
          c2 \<noteq> [] \<and> t3 \<le> t2 + CODE_TTL \<and> 6 \<le> length p \<longrightarrow>
          http_status (fst (auth_verify t3 hash2 (JStr e) (JStr c2) (JStr p) (JStr p)
            (snd (auth_send_code CODE_TTL DEV_FALLBACK t2 c2 delivered (JStr e)
              (snd (auth_verify now hash (JStr e) (JStr c) password confirm w)))))) = 200)"
proof -
  let ?w1 = "snd (auth_verify now hash (JStr e) (JStr c) password confirm w)"
  have vc: "validateCode now e (JStr c) (codeStore w) = (True, (codeStore w)(toLowerCase e := None))"
    using validateCode_match [where cs = "codeStore w" and e = e and rec = rec and now = now]
      assms(1,2,3) by simp
  have first: "http_status (fst (auth_verify now hash (JStr e) (JStr c) password confirm w)) = 400"
    using auth_verify_bad_password_fst [OF assms(6,7,5), of "JStr c" now w hash] assms(4) vc
    by simp
  have w1: "?w1 = w\<lparr>codeStore := (codeStore w)(toLowerCase e := None)\<rparr>"
    using auth_verify_bad_password_snd [OF assms(6,7), of now hash "JStr e" "JStr c" w] assms(4,5) vc
    by simp
  have gone: "codeStore ?w1 (toLowerCase e) = None"
    by (simp add: w1)
  have retry: "fst (auth_verify now' hash' (JStr e) (JStr c) password' confirm' ?w1)
       = Response 401 (Error ''invalid or expired code'')"
    for now' hash' password' confirm'
    using validateCode_absent [where cs = "codeStore ?w1" and e = e, OF gone] assms(4,5)
      auth_verify_invalid [where e = e and c = "JStr c" and v = ?w1]
    by simp
  have fresh: "http_status (fst (auth_verify t3 hash2 (JStr e) (JStr c2) (JStr p) (JStr p)
            (snd (auth_send_code CODE_TTL DEV_FALLBACK t2 c2 delivered (JStr e) ?w1)))) = 200"
    if "c2 \<noteq> []" "t3 \<le> t2 + CODE_TTL" "6 \<le> length p"
    for CODE_TTL DEV_FALLBACK t2 c2 delivered t3 hash2 p
  proof -
    let ?w2 = "snd (auth_send_code CODE_TTL DEV_FALLBACK t2 c2 delivered (JStr e) ?w1)"
    have "codeStore ?w2 (toLowerCase e) = Some \<lparr>code = c2, expiresAt = t2 + CODE_TTL\<rparr>"
      using assms(5) by (simp add: auth_send_code_snd)
    from validateCode_match [where cs = "codeStore ?w2" and e = e and now = t3, OF this] that(2)
    have "validateCode t3 e (JStr c2) (codeStore ?w2)
            = (True, (codeStore ?w2)(toLowerCase e := None))" by simp
    then show ?thesis using that(1,3) assms(5)
      auth_verify_good_password [where e = e and c = "JStr c2" and v = ?w2 and now = t3 and p = p]
      by simp
  qed
  from first gone retry fresh show ?thesis by blast
qed

theorem verify_consumes_code_before_password_check_witness:
  "http_status (fst (auth_verify 1000 ''hash'' (JStr ''a@x.edu'') (JStr ''123456'')
      (JStr ''secret1'') (JStr ''secret2'') campus)) = 400
   \<and> fst (auth_verify 2000 ''hash'' (JStr ''a@x.edu'') (JStr ''123456'')
      (JStr ''secret1'') (JStr ''secret1'')
      (snd (auth_verify 1000 ''hash'' (JStr ''a@x.edu'') (JStr ''123456'')
        (JStr ''secret1'') (JStr ''secret2'') campus)))
       = Response 401 (Error ''invalid or expired code'')
   \<and> http_status (fst (auth_verify 4000 ''hash'' (JStr ''a@x.edu'') (JStr ''777777'')
      (JStr ''secret1'') (JStr ''secret1'')
      (snd (auth_send_code 300000 False 3000 ''777777'' True (JStr ''a@x.edu'')
        (snd (auth_verify 1000 ''hash'' (JStr ''a@x.edu'') (JStr ''123456'')
          (JStr ''secret1'') (JStr ''secret2'') campus)))))) = 200"
proof -
  have pending: "codeStore campus (toLowerCase ''a@x.edu'')
      = Some \<lparr>code = ''123456'', expiresAt = 300000\<rparr>"
    by (simp add: campus_def lower_a_x_edu)
  have live: "\<not> 1000 > expiresAt \<lparr>code = ''123456'', expiresAt = 300000\<rparr>" by simp
  have same: "code \<lparr>code = ''123456'', expiresAt = 300000\<rparr> = ''123456''" by simp
  have c: "''123456'' \<noteq> []" and e: "''a@x.edu'' \<noteq> []" by simp_all
  have present: "JStr ''secret1'' \<noteq> JUndefined" by simp
  have mismatch: "(\<forall>p. JStr ''secret1'' = JStr p \<longrightarrow> length p < 6) \<or> JStr ''secret1'' \<noteq> JStr ''secret2''"
    by simp
  from verify_consumes_code_before_password_check [OF pending live same c e present mismatch,
      where hash = "''hash''"]
  show ?thesis by simp
qed

section \<open>Verification: the routes behind the middleware\<close>

lemma post_register_authenticated:
  "authMiddleware jwt_verify now auth = Inr userEmail \<Longrightarrow>
   post_register jwt_verify now auth announcementId w = register now userEmail announcementId w"
  by (simp add: post_register_def)

lemma post_register_rejected:
  "authMiddleware jwt_verify now auth = Inl r \<Longrightarrow>
   post_register jwt_verify now auth announcementId w = (r, w)"
  by (simp add: post_register_def)

lemma post_unregister_authenticated:
  "authMiddleware jwt_verify now auth = Inr userEmail \<Longrightarrow>
   post_unregister jwt_verify now auth announcementId w = unregister userEmail announcementId w"
  by (simp add: post_unregister_def)

lemma post_unregister_rejected:
  "authMiddleware jwt_verify now auth = Inl r \<Longrightarrow>
   post_unregister jwt_verify now auth announcementId w = (r, w)"
  by (simp add: post_unregister_def)

lemma authMiddleware_bearer:
  "authMiddleware tokens now (Some ''Bearer tok-a@x.edu'') = Inr ''a@x.edu''"
  by (simp add: authMiddleware_def tokens_def)

lemma authMiddleware_missing:
  "authMiddleware jwt_verify now None = Inl (Response 401 (Error ''missing token''))"
  by (simp add: authMiddleware_def)

section \<open>Verification: cancelling a registration\<close>

lemma cancel_no_hit:
  "\<forall>r\<in>set rs. \<not> hit r \<Longrightarrow> map (\<lambda>r. if hit r then f r else r) rs = rs"
  by (induction rs) auto

lemma filter_no_hit:
  "(\<forall>r\<in>set rs. \<not> hit r) \<longleftrightarrow> length (filter hit rs) = 0"
  by (induction rs) auto

lemma unregister_unfold:
  "findUserByEmail userEmail w = Some user \<Longrightarrow>
   unregister userEmail announcementId w =
     (if length (filter (\<lambda>r. r_announcement_id r = announcementId \<and> r_user_id r = u_id user
                          \<and> r_status r = ''registered'') (event_registrations w)) = 0
      then Response 404 (Error ''Registration not found'')
      else Response 200 (Registered False),
      w\<lparr>event_registrations :=
          map (\<lambda>r. if r_announcement_id r = announcementId \<and> r_user_id r = u_id user
                       \<and> r_status r = ''registered''
                    then r\<lparr>r_status := ''cancelled''\<rparr> else r) (event_registrations w)\<rparr>)"
  by (simp add: unregister_def Let_def)

lemma findUserByEmail_registrations [simp]:
  "findUserByEmail e (w\<lparr>event_registrations := rs\<rparr>) = findUserByEmail e w"
  by (simp add: findUserByEmail_def)

lemma cancel_leaves_no_hit:
  "x \<in> set (map (\<lambda>r. if r_announcement_id r = a \<and> r_user_id r = u \<and> r_status r = ''registered''
               then r\<lparr>r_status := ''cancelled''\<rparr> else r) rs) \<Longrightarrow>
   \<not> (r_announcement_id x = a \<and> r_user_id x = u \<and> r_status x = ''registered'')"
proof (induction rs)
  case Nil
  then show ?case by simp
next
  case (Cons r rs)
  show ?case
  proof (cases "r_announcement_id r = a \<and> r_user_id r = u \<and> r_status r = ''registered''")
    case True
    with Cons show ?thesis by auto
  next
    case False
    with Cons show ?thesis by auto
  qed
qed

lemma campus_users:
  "findUserByEmail ''a@x.edu'' campus = Some user_a"
  "findUserByEmail ''b@x.edu'' campus = Some user_b"
  "findUserByEmail ''c@x.edu'' campus = Some user_c"
  by (simp_all add: findUserByEmail_def campus_def user_a_def user_b_def user_c_def
      lower_a_x_edu lower_b_x_edu lower_c_x_edu)

lemma campus_roster_users:
  "findUserByEmail ''a@x.edu'' campus_roster = Some user_a"
  "findUserByEmail ''b@x.edu'' campus_roster = Some user_b"
  by (simp_all add: findUserByEmail_def campus_roster_def campus_def user_a_def user_b_def
      user_c_def lower_a_x_edu lower_b_x_edu)

text \<open>
  C6: for a user the handler finds, \<open>unregister\<close> answers 404 \<open>Registration not found\<close>
  and changes nothing when the pair has no row with status \<open>registered\<close> (so also when
  its row is already cancelled); otherwise it answers 200 and sets the status of the
  pair's registered rows to \<open>cancelled\<close>, and a second call answers 404 and changes
  nothing further.
\<close>

theorem unregister_cases:
  assumes "findUserByEmail userEmail w = Some user"
  shows
    "(\<not> (\<exists>r\<in>set (event_registrations w). r_announcement_id r = announcementId
            \<and> r_user_id r = u_id user \<and> r_status r = ''registered'') \<longrightarrow>
        unregister userEmail announcementId w = (Response 404 (Error ''Registration not found''), w))
     \<and> ((\<exists>r\<in>set (event_registrations w). r_announcement_id r = announcementId
            \<and> r_user_id r = u_id user \<and> r_status r = ''registered'') \<longrightarrow>
        fst (unregister userEmail announcementId w) = Response 200 (Registered False)
        \<and> snd (unregister userEmail announcementId w)
            = w\<lparr>event_registrations :=
                  map (\<lambda>r. if r_announcement_id r = announcementId \<and> r_user_id r = u_id user
                               \<and> r_status r = ''registered''
                            then r\<lparr>r_status := ''cancelled''\<rparr> else r) (event_registrations w)\<rparr>
        \<and> unregister userEmail announcementId (snd (unregister userEmail announcementId w))
            = (Response 404 (Error ''Registration not found''),
               snd (unregister userEmail announcementId w)))"
proof -
  let ?hit = "\<lambda>r. r_announcement_id r = announcementId \<and> r_user_id r = u_id user
                  \<and> r_status r = ''registered''"
  let ?cancel = "map (\<lambda>r. if ?hit r then r\<lparr>r_status := ''cancelled''\<rparr> else r)"
  have none: "unregister userEmail announcementId v = (Response 404 (Error ''Registration not found''), v)"
    if u: "findUserByEmail userEmail v = Some user"
      and n: "\<forall>r\<in>set (event_registrations v). \<not> ?hit r" for v
  proof -
    from n have "length (filter ?hit (event_registrations v)) = 0"
      by (simp only: filter_no_hit)
    moreover from n have "?cancel (event_registrations v) = event_registrations v"
      by (rule cancel_no_hit)
    ultimately show ?thesis
      by (simp only: unregister_unfold [OF u] if_True world.surjective world.update_convs)
         simp
  qed
  have some: "fst (unregister userEmail announcementId w) = Response 200 (Registered False)"
    if "\<exists>r\<in>set (event_registrations w). ?hit r"
  proof -
    from that have "length (filter ?hit (event_registrations w)) \<noteq> 0"
      by (simp only: filter_no_hit [symmetric]) blast
    then show ?thesis by (simp only: unregister_unfold [OF assms] if_False fst_conv)
  qed
  have after: "snd (unregister userEmail announcementId w)
      = w\<lparr>event_registrations := ?cancel (event_registrations w)\<rparr>"
    by (simp only: unregister_unfold [OF assms] snd_conv)
  have user_after: "findUserByEmail userEmail (snd (unregister userEmail announcementId w)) = Some user"
    by (simp only: after findUserByEmail_registrations assms)
  have regs_after: "event_registrations (snd (unregister userEmail announcementId w))
      = ?cancel (event_registrations w)"
    by (simp add: after)
  have no_hit_after: "\<forall>r\<in>set (event_registrations (snd (unregister userEmail announcementId w))). \<not> ?hit r"
  proof
    fix r
    assume "r \<in> set (event_registrations (snd (unregister userEmail announcementId w)))"
    then have "r \<in> set (?cancel (event_registrations w))"
      by (simp only: regs_after)
    from cancel_leaves_no_hit [OF this] show "\<not> ?hit r" .
  qed
  from none [OF assms] some after none [OF user_after no_hit_after]
  show ?thesis by blast
qed

theorem unregister_cases_witness:
  "unregister ''b@x.edu'' 7 campus_roster
     = (Response 404 (Error ''Registration not found''), campus_roster)
   \<and> fst (unregister ''a@x.edu'' 7 campus_roster) = Response 200 (Registered False)
   \<and> map r_status (event_registrations (snd (unregister ''a@x.edu'' 7 campus_roster)))
       = [''cancelled'', ''cancelled'']
   \<and> fst (unregister ''a@x.edu'' 7 (snd (unregister ''a@x.edu'' 7 campus_roster)))
       = Response 404 (Error ''Registration not found'')"
proof -
  have b: "\<not> (\<exists>r\<in>set (event_registrations campus_roster). r_announcement_id r = 7
            \<and> r_user_id r = u_id user_b \<and> r_status r = ''registered'')"
    by (simp add: campus_roster_def user_b_def)
  have a: "\<exists>r\<in>set (event_registrations campus_roster). r_announcement_id r = 7
            \<and> r_user_id r = u_id user_a \<and> r_status r = ''registered''"
    by (simp add: campus_roster_def user_a_def)
  from unregister_cases [OF campus_roster_users(2), of 7] b
  have one: "unregister ''b@x.edu'' 7 campus_roster
     = (Response 404 (Error ''Registration not found''), campus_roster)" by blast
  from unregister_cases [OF campus_roster_users(1), of 7] a
  have two: "fst (unregister ''a@x.edu'' 7 campus_roster) = Response 200 (Registered False)"
    and three: "snd (unregister ''a@x.edu'' 7 campus_roster)
            = campus_roster\<lparr>event_registrations :=
                  map (\<lambda>r. if r_announcement_id r = 7 \<and> r_user_id r = u_id user_a
                               \<and> r_status r = ''registered''
                            then r\<lparr>r_status := ''cancelled''\<rparr> else r)
                    (event_registrations campus_roster)\<rparr>"
    and four: "unregister ''a@x.edu'' 7 (snd (unregister ''a@x.edu'' 7 campus_roster))
            = (Response 404 (Error ''Registration not found''),
               snd (unregister ''a@x.edu'' 7 campus_roster))"
    by blast+
  have "map r_status (event_registrations (snd (unregister ''a@x.edu'' 7 campus_roster)))
       = [''cancelled'', ''cancelled'']"
    by (simp add: three) (simp add: campus_roster_def user_a_def)
  with one two four show ?thesis by simp
qed

section \<open>Verification: registering for an event\<close>

lemma register_open:
  assumes "findUserByEmail userEmail w = Some user"
    and "filter (\<lambda>x. a_id x = a) (announcements w) = ann # rest"
    and "a_registration_enabled ann = Some True"
    and "\<forall>d. a_registration_deadline ann = Some d \<longrightarrow> \<not> now > d"
  shows "register now userEmail a w =
    (case a_max_registrations ann of
       None \<Rightarrow> (Response 200 (Registered True), w)
     | Some m \<Rightarrow>
         if m = 0 then (Response 200 (Registered True), w)
         else if int (registeredCount a w) \<ge> m then
           (Response 400 (Error ''Event is full. Maximum registrations reached.''), w)
         else
           (case registrationsOf a (u_id user) w of
              existing # _ \<Rightarrow>
                if r_status existing = ''registered'' then
                  (Response 400 (Error ''Already registered for this event''), w)
                else
                  (Response 200 (Registered True),
                   w\<lparr>event_registrations :=
                       map (\<lambda>r. if r_id r = r_id existing
                              then r\<lparr>r_status := ''registered'', r_registered_at := now\<rparr>
                              else r) (event_registrations w)\<rparr>)
            | [] \<Rightarrow> (Response 500 (Error ''Failed to register''), w)))"
  using assms
  by (cases "a_registration_deadline ann"; cases "a_max_registrations ann")
     (simp_all add: register_def)

lemma register_deadline_passed:
  assumes "findUserByEmail userEmail w = Some user"
    and "filter (\<lambda>x. a_id x = a) (announcements w) = ann # rest"
    and "a_registration_enabled ann = Some True"
    and "a_registration_deadline ann = Some d"
    and "now > d"
  shows "register now userEmail a w = (Response 400 (Error ''Registration deadline has passed''), w)"
  using assms by (simp add: register_def)










lemma map_key_update:
  assumes "\<And>r. k (f r) = k r"
  shows "map k (map (\<lambda>r. if c r then f r else r) rs) = map k rs"
  by (induction rs) (simp_all add: assms)









lemma register_first_time:
  assumes "findUserByEmail userEmail w = Some user"
    and "filter (\<lambda>x. a_id x = a) (announcements w) = ann # rest"
    and "a_registration_enabled ann = Some True"
    and "\<forall>d. a_registration_deadline ann = Some d \<longrightarrow> \<not> now > d"
    and "a_max_registrations ann = Some m"
    and "m \<noteq> 0"
    and "int (registeredCount a w) < m"
    and "registrationsOf a (u_id user) w = []"
  shows "register now userEmail a w = (Response 500 (Error ''Failed to register''), w)"
proof -
  from assms(7) have room: "\<not> int (registeredCount a w) \<ge> m" by simp
  from register_open [OF assms(1-4)] assms(5,6,8) room
  show ?thesis
    by (simp only: option.case list.case if_False if_True simp_thms)
qed

lemma campus_events:
  "filter (\<lambda>x. a_id x = 7) (announcements campus) = [event_7]"
  "filter (\<lambda>x. a_id x = 8) (announcements campus) = [event_8]"
  by (simp_all add: campus_def event_7_def event_8_def)

lemma campus_no_registrations:
  "registrationsOf a uid campus = []" "registeredCount a campus = 0"
  by (simp_all add: registrationsOf_def registeredCount_def campus_def)

lemma campus_event_7:
  "a_registration_enabled event_7 = Some True"
  "a_registration_deadline event_7 = Some 5000"
  "a_max_registrations event_7 = Some 1"
  by (simp_all add: event_7_def)

text \<open>
  C5, at an input where the code departs from it: announcement 7 has registration
  enabled, a deadline at 5000 and room for one registration, and the first student has
  no row.  One second after the deadline \<open>register\<close> answers 400
  \<open>Registration deadline has passed\<close> and changes nothing, as the claim says.  One
  second before the deadline every gate is passed, yet the answer is 500
  \<open>Failed to register\<close>: the state is unchanged and the status query reports
  \<open>registered: false\<close>.
\<close>

theorem register_before_deadline_not_recorded:
  "a_registration_enabled event_7 = Some True
   \<and> a_registration_deadline event_7 = Some 5000
   \<and> a_max_registrations event_7 = Some 1
   \<and> registeredCount 7 campus = 0
   \<and> registrationsOf 7 (u_id user_a) campus = []
   \<and> register (5000 + 1000) ''a@x.edu'' 7 campus
       = (Response 400 (Error ''Registration deadline has passed''), campus)
   \<and> register (5000 - 1000) ''a@x.edu'' 7 campus
       = (Response 500 (Error ''Failed to register''), campus)
   \<and> registration_status ''a@x.edu'' 7 (snd (register (5000 - 1000) ''a@x.edu'' 7 campus))
       = Response 200 (Registered False)"
proof -
  have late: "register (5000 + 1000) ''a@x.edu'' 7 campus
       = (Response 400 (Error ''Registration deadline has passed''), campus)"
    by (rule register_deadline_passed [OF campus_users(1) campus_events(1) campus_event_7(1,2)])
       simp
  have open_: "\<forall>d. a_registration_deadline event_7 = Some d \<longrightarrow> \<not> 5000 - 1000 > d"
    by (simp add: campus_event_7)
  have early: "register (5000 - 1000) ''a@x.edu'' 7 campus
       = (Response 500 (Error ''Failed to register''), campus)"
    by (rule register_first_time [OF campus_users(1) campus_events(1) campus_event_7(1) open_
          campus_event_7(3)])
       (simp_all add: campus_no_registrations)
  have "registration_status ''a@x.edu'' 7 campus = Response 200 (Registered False)"
    by (simp add: registration_status_def campus_users campus_no_registrations)
  with late early show ?thesis
    by (simp add: campus_event_7 campus_no_registrations)
qed

text \<open>
  C1, at an input where the code departs from it: announcement 8 exists, has
  registration enabled, no deadline and no capacity, and the user has no row.
  \<open>register\<close> answers 200 with \<open>registered: true\<close>, yet the state is unchanged: no row
  is inserted, and the status query reports \<open>registered: false\<close>.
\<close>

theorem register_without_capacity_records_nothing:
  "a_registration_enabled event_8 = Some True
   \<and> a_registration_deadline event_8 = None
   \<and> a_max_registrations event_8 = None
   \<and> register 1000 ''a@x.edu'' 8 campus = (Response 200 (Registered True), campus)
   \<and> registrationsOf 8 (u_id user_a) (snd (register 1000 ''a@x.edu'' 8 campus)) = []
   \<and> registration_status ''a@x.edu'' 8 (snd (register 1000 ''a@x.edu'' 8 campus))
       = Response 200 (Registered False)"
proof -
  have en: "a_registration_enabled event_8 = Some True"
    and dl: "a_registration_deadline event_8 = None"
    and mx: "a_max_registrations event_8 = None"
    by (simp_all add: event_8_def)
  from dl have open_: "\<forall>d. a_registration_deadline event_8 = Some d \<longrightarrow> \<not> 1000 > d" by simp
  from register_open [OF campus_users(1) campus_events(2) en open_] mx
  have "register 1000 ''a@x.edu'' 8 campus = (Response 200 (Registered True), campus)"
    by simp
  with en dl mx show ?thesis
    by (simp add: registration_status_def campus_users campus_no_registrations)
qed

lemma registration_info_fields:
  assumes "filter (\<lambda>x. a_id x = a) (announcements w) = ann # rest"
  shows "\<exists>i. registration_info now a w = Response 200 (Info i)
     \<and> registration_enabled i = False
     \<and> current_count i = registeredCount a w
     \<and> max_registrations i = a_max_registrations ann
     \<and> deadline i = a_registration_deadline ann
     \<and> (truthy (is_full i) \<longleftrightarrow>
          (\<exists>m. a_max_registrations ann = Some m \<and> m \<noteq> 0 \<and> int (registeredCount a w) \<ge> m))
     \<and> (truthy (deadline_passed i) \<longleftrightarrow>
          (\<exists>d. a_registration_deadline ann = Some d \<and> now > d))"
  using assms
  by (cases "a_registration_enabled ann"; cases "a_max_registrations ann";
      cases "a_registration_deadline ann")
     (simp_all add: registration_info_def js_and_def Let_def)

text \<open>
  C4, at an input where the code departs from it: announcement 7 has its flag stored as
  true (and \<open>register\<close> does not turn a request for it away as not enabled), yet
  \<open>registration-info\<close> reports \<open>registration_enabled: false\<close>, because a boolean is never \<open>=== 1\<close>.  The
  count and the two derived fields are as the claim says.
\<close>

theorem registration_info_enabled_flag:
  "a_registration_enabled event_7 = Some True
   \<and> registration_info 1000 7 campus
       = Response 200 (Info \<lparr>registration_enabled = False, current_count = 0,
           max_registrations = Some 1, is_full = JBool False,
           deadline = Some 5000, deadline_passed = JBool False\<rparr>)
   \<and> fst (register 1000 ''a@x.edu'' 7 campus)
       \<noteq> Response 400 (Error ''Registration not enabled for this event'')"
proof -
  have en: "a_registration_enabled event_7 = Some True"
    and dl: "a_registration_deadline event_7 = Some 5000"
    and mx: "a_max_registrations event_7 = Some 1"
    by (simp_all add: event_7_def)
  have info: "registration_info 1000 7 campus
       = Response 200 (Info \<lparr>registration_enabled = False, current_count = 0,
           max_registrations = Some 1, is_full = JBool False,
           deadline = Some 5000, deadline_passed = JBool False\<rparr>)"
    by (simp add: registration_info_def campus_events campus_no_registrations en dl mx
        js_and_def)
  from dl have open_: "\<forall>d. a_registration_deadline event_7 = Some d \<longrightarrow> \<not> 1000 > d" by simp
  from register_open [OF campus_users(1) campus_events(1) en open_] mx
  have "fst (register 1000 ''a@x.edu'' 7 campus)
       \<noteq> Response 400 (Error ''Registration not enabled for this event'')"
    by (simp add: campus_no_registrations)
  with en info show ?thesis by simp
qed

section \<open>Verification: the profile route\<close>

lemma find_unique:
  "distinct (map k us) \<Longrightarrow> find (\<lambda>u. k u = v) us = Some cu \<Longrightarrow> x \<in> set us \<Longrightarrow> k x = v \<Longrightarrow> x = cu"
proof (induction us)
  case Nil
  then show ?case by simp
next
  case (Cons u us)
  show ?case
  proof (cases "k u = v")
    case True
    with Cons.prems(2) have "cu = u" by simp
    moreover from True Cons.prems(1) have "\<forall>y\<in>set us. k y \<noteq> v" by (auto simp: image_iff)
    ultimately show ?thesis using Cons.prems(3,4) by auto
  next
    case False
    with Cons.prems(2) have "find (\<lambda>u. k u = v) us = Some cu" by simp
    moreover from False Cons.prems(3,4) have "x \<in> set us" by auto
    ultimately show ?thesis using Cons.IH Cons.prems(1,4) by simp
  qed
qed

lemma updateProfile_users:
  "users (updateProfile now email nm br rn r cid ra w) =
     map (\<lambda>u. if u_email u = toLowerCase email
            then (if ra then
                    u\<lparr>u_name := nm, u_branch := br, u_roll_number := rn, u_club_id := cid,
                      u_admin_requested := True, u_requested_at := Some now,
                      u_updated_at := Some now\<rparr>
                  else if r \<noteq> None then
                    u\<lparr>u_name := nm, u_branch := br, u_roll_number := rn, u_role := r,
                      u_updated_at := Some now\<rparr>
                  else
                    u\<lparr>u_name := nm, u_branch := br, u_roll_number := rn,
                      u_updated_at := Some now\<rparr>)
            else u) (users w)"
  by (simp add: updateProfile_def)

lemma post_profile_shape:
  obtains (same) "snd (post_profile jwt_verify now auth nm br rn rl cid w) = w"
    | (student) sub cu where "findUserByEmail (toLowerCase sub) w = Some cu"
        "u_role cu = None" "rl = JStr ''student''"
        "snd (post_profile jwt_verify now auth nm br rn rl cid w)
           = updateProfile now (toLowerCase sub) (js_or nm JNull) (js_or br JNull)
               (js_or rn JNull) (Some student) JNull False w"
    | (admin) sub cu where "findUserByEmail (toLowerCase sub) w = Some cu"
        "u_role cu = None"
        "snd (post_profile jwt_verify now auth nm br rn rl cid w)
           = updateProfile now (toLowerCase sub) (js_or nm JNull) (js_or br JNull)
               (js_or rn JNull) None (js_or cid JNull) True w"
    | (plain) sub where
        "snd (post_profile jwt_verify now auth nm br rn rl cid w)
           = updateProfile now (toLowerCase sub) (js_or nm JNull) (js_or br JNull)
               (js_or rn JNull) None JNull False w"
proof (cases auth)
  case None
  then have "snd (post_profile jwt_verify now auth nm br rn rl cid w) = w"
    by (simp add: post_profile_def Let_def)
  then show ?thesis by (rule same)
next
  case (Some h)
  show ?thesis
  proof (cases "h = [] \<or> length (split_space h) < 2")
    case True
    with Some have "snd (post_profile jwt_verify now auth nm br rn rl cid w) = w"
      by (auto simp add: post_profile_def Let_def)
    then show ?thesis by (rule same)
  next
    case False
    show ?thesis
    proof (cases "jwt_verify now (split_space h ! 1)")
      case None
      with Some False have "snd (post_profile jwt_verify now auth nm br rn rl cid w) = w"
        by (simp add: post_profile_def Let_def)
      then show ?thesis by (rule same)
    next
      case sub: (Some sub)
      show ?thesis
      proof (cases "findUserByEmail (toLowerCase sub) w")
        case None
        with Some False sub have "snd (post_profile jwt_verify now auth nm br rn rl cid w) = w"
          by (simp add: post_profile_def Let_def)
        then show ?thesis by (rule same)
      next
        case cu: (Some cu)
        have seq: "strict_eq rl (JStr s) = (rl = JStr s)" for s
          by (cases rl) auto
        show ?thesis
        proof (cases "truthy rl \<and> u_role cu = None")
          case unset: True
          show ?thesis
          proof (cases "rl = JStr ''student''")
            case True
            with Some False sub cu unset seq
            have "snd (post_profile jwt_verify now auth nm br rn rl cid w)
               = updateProfile now (toLowerCase sub) (js_or nm JNull) (js_or br JNull)
                   (js_or rn JNull) (Some student) JNull False w"
              by (simp add: post_profile_def Let_def)
            with cu unset True show ?thesis by (auto intro: student)
          next
            case not_student: False
            show ?thesis
            proof (cases "rl = JStr ''club_admin''")
              case True
              with Some False sub cu unset seq
              have "snd (post_profile jwt_verify now auth nm br rn rl cid w)
                 = updateProfile now (toLowerCase sub) (js_or nm JNull) (js_or br JNull)
                     (js_or rn JNull) None (js_or cid JNull) True w"
                by (simp add: post_profile_def Let_def)
              with cu unset show ?thesis by (auto intro: admin)
            next
              case False
              with Some \<open>\<not> (h = [] \<or> length (split_space h) < 2)\<close> sub cu unset seq not_student
              have "snd (post_profile jwt_verify now auth nm br rn rl cid w) = w"
                by (simp add: post_profile_def Let_def)
              then show ?thesis by (rule same)
            qed
          qed
        next
          case False
          with Some \<open>\<not> (h = [] \<or> length (split_space h) < 2)\<close> sub cu
          have "snd (post_profile jwt_verify now auth nm br rn rl cid w)
               = updateProfile now (toLowerCase sub) (js_or nm JNull) (js_or br JNull)
                   (js_or rn JNull) None JNull False w"
            by (auto simp add: post_profile_def Let_def)
          then show ?thesis by (rule plain)
        qed
      qed
    qed
  qed
qed

lemma updateProfile_emails:
  "map u_email (users (updateProfile now email nm br rn r cid ra w)) = map u_email (users w)"
  by (simp only: updateProfile_users) (rule map_key_update, simp)

lemma updateProfile_plain_row:
  "j < length (users w) \<Longrightarrow>
   u_role (users (updateProfile now email nm br rn None cid False w) ! j) = u_role (users w ! j)
   \<and> u_club_id (users (updateProfile now email nm br rn None cid False w) ! j)
       = u_club_id (users w ! j)"
  by (simp add: updateProfile_users)

lemma updateProfile_other_row:
  "j < length (users w) \<Longrightarrow> u_email (users w ! j) \<noteq> toLowerCase email \<Longrightarrow>
   users (updateProfile now email nm br rn r cid ra w) ! j = users w ! j"
  by (simp add: updateProfile_users)

lemma updateProfile_student_row:
  "j < length (users w) \<Longrightarrow>
   u_role (users (updateProfile now email nm br rn (Some student) cid False w) ! j)
     = (if u_email (users w ! j) = toLowerCase email then Some student else u_role (users w ! j))"
  by (simp add: updateProfile_users)

lemma updateProfile_admin_row:
  "j < length (users w) \<Longrightarrow>
   u_role (users (updateProfile now email nm br rn None cid True w) ! j) = u_role (users w ! j)"
  by (simp add: updateProfile_users)

lemma post_profile_step:
  assumes "users_constraints w"
  shows "map u_email (users (snd (post_profile jwt_verify now auth nm br rn rl cid w)))
           = map u_email (users w)"
    and "j < length (users w) \<Longrightarrow> u_role (users w ! j) \<noteq> None \<Longrightarrow>
         u_role (users (snd (post_profile jwt_verify now auth nm br rn rl cid w)) ! j)
           = u_role (users w ! j)
         \<and> u_club_id (users (snd (post_profile jwt_verify now auth nm br rn rl cid w)) ! j)
           = u_club_id (users w ! j)"
    and "j < length (users w) \<Longrightarrow>
         u_role (users (snd (post_profile jwt_verify now auth nm br rn rl cid w)) ! j)
           \<noteq> u_role (users w ! j) \<Longrightarrow>
         u_role (users w ! j) = None
         \<and> u_role (users (snd (post_profile jwt_verify now auth nm br rn rl cid w)) ! j)
             = Some student
         \<and> rl = JStr ''student''"
proof -
  let ?w' = "snd (post_profile jwt_verify now auth nm br rn rl cid w)"
  note shape = post_profile_shape [of jwt_verify now auth nm br rn rl cid w]
  show "map u_email (users ?w') = map u_email (users w)"
    by (cases rule: shape) (simp_all only: updateProfile_emails)
  show "u_role (users ?w' ! j) = u_role (users w ! j)
         \<and> u_club_id (users ?w' ! j) = u_club_id (users w ! j)"
    if j: "j < length (users w)" and r: "u_role (users w ! j) \<noteq> None"
  proof (cases rule: shape)
    case same
    then show ?thesis by simp
  next
    case (student sub cu)
    have "u_email (users w ! j) \<noteq> toLowerCase (toLowerCase sub)"
    proof
      assume "u_email (users w ! j) = toLowerCase (toLowerCase sub)"
      with find_unique [of u_email "users w" "toLowerCase (toLowerCase sub)" cu "users w ! j"]
        assms student(1) j
      have "users w ! j = cu" by (simp add: users_constraints_def findUserByEmail_def)
      with student(2) r show False by simp
    qed
    from updateProfile_other_row [OF j this] student(4) show ?thesis by simp
  next
    case (admin sub cu)
    note cu = admin(1,2)
    have "u_email (users w ! j) \<noteq> toLowerCase (toLowerCase sub)"
    proof
      assume "u_email (users w ! j) = toLowerCase (toLowerCase sub)"
      with find_unique [of u_email "users w" "toLowerCase (toLowerCase sub)" cu "users w ! j"]
        assms cu(1) j
      have "users w ! j = cu" by (simp add: users_constraints_def findUserByEmail_def)
      with cu(2) r show False by simp
    qed
    from updateProfile_other_row [OF j this] admin(3) show ?thesis by simp
  next
    case (plain sub)
    with updateProfile_plain_row [OF j] show ?thesis by simp
  qed
  show "u_role (users w ! j) = None \<and> u_role (users ?w' ! j) = Some student
         \<and> rl = JStr ''student''"
    if j: "j < length (users w)" and ch: "u_role (users ?w' ! j) \<noteq> u_role (users w ! j)"
  proof (cases rule: shape)
    case same
    with ch show ?thesis by simp
  next
    case (student sub cu)
    from ch have hit: "u_email (users w ! j) = toLowerCase (toLowerCase sub)"
      by (simp add: student(4) updateProfile_student_row [OF j] split: if_splits)
    with find_unique [of u_email "users w" "toLowerCase (toLowerCase sub)" cu "users w ! j"]
      assms student(1) j
    have row: "users w ! j = cu" by (simp add: users_constraints_def findUserByEmail_def)
    from hit have "u_role (users ?w' ! j) = Some student"
      by (simp add: student(4) updateProfile_student_row [OF j])
    with row student(2,3) show ?thesis by simp
  next
    case (admin sub cu)
    with ch updateProfile_admin_row [OF j] show ?thesis by simp
  next
    case (plain sub)
    with ch updateProfile_plain_row [OF j] show ?thesis by simp
  qed
qed

lemma post_profile_all_keeps_role:
  assumes "users_constraints w" and "i < length (users w)" and "u_role (users w ! i) \<noteq> None"
  shows "users_constraints (post_profile_all jwt_verify qs w)
    \<and> length (users (post_profile_all jwt_verify qs w)) = length (users w)
    \<and> u_email (users (post_profile_all jwt_verify qs w) ! i) = u_email (users w ! i)
    \<and> u_role (users (post_profile_all jwt_verify qs w) ! i) = u_role (users w ! i)
    \<and> u_club_id (users (post_profile_all jwt_verify qs w) ! i) = u_club_id (users w ! i)"
  using assms
proof (induction qs arbitrary: w)
  case Nil
  then show ?case by simp
next
  case (Cons q qs)
  let ?w1 = "snd (post_profile jwt_verify (q_now q) (q_auth q) (q_name q) (q_branch q)
               (q_roll_number q) (q_role q) (q_club_id q) w)"
  note step = post_profile_step [OF Cons.prems(1), where jwt_verify = jwt_verify
      and now = "q_now q" and auth = "q_auth q" and nm = "q_name q" and br = "q_branch q"
      and rn = "q_roll_number q" and rl = "q_role q" and cid = "q_club_id q"]
  from step(1) have emails: "map u_email (users ?w1) = map u_email (users w)" .
  then have len: "length (users ?w1) = length (users w)"
    by (metis length_map)
  from emails Cons.prems(1) have c1: "users_constraints ?w1"
    by (simp add: users_constraints_def)
  from Cons.prems(2) len have i1: "i < length (users ?w1)" by simp
  from emails Cons.prems(2) len have e1: "u_email (users ?w1 ! i) = u_email (users w ! i)"
    by (metis nth_map)
  from step(2) [OF Cons.prems(2,3)]
  have r1: "u_role (users ?w1 ! i) = u_role (users w ! i)"
    and k1: "u_club_id (users ?w1 ! i) = u_club_id (users w ! i)" by simp_all
  from r1 Cons.prems(3) have n1: "u_role (users ?w1 ! i) \<noteq> None" by simp
  from Cons.IH [OF c1 i1 n1] len e1 r1 k1 show ?case by simp
qed

lemma campus_users_constraints: "users_constraints campus"
  by (simp add: users_constraints_def campus_def user_a_def user_b_def user_c_def)

lemma bearer_b: "split_space ''Bearer tok-b@x.edu'' = [''Bearer'', ''tok-b@x.edu'']"
  by simp

lemma bearer_a: "split_space ''Bearer tok-a@x.edu'' = [''Bearer'', ''tok-a@x.edu'']"
  by simp

lemma tokens_ab:
  "tokens t ''tok-a@x.edu'' = Some ''a@x.edu''" "tokens t ''tok-b@x.edu'' = Some ''b@x.edu''"
  by (simp_all add: tokens_def)

lemma profile_declares_student:
  "u_role (users campus ! 0) = None
   \<and> u_role (users (snd (post_profile tokens 10 (Some ''Bearer tok-a@x.edu'')
        (JStr ''Ann'') JUndefined JUndefined (JStr ''student'') JUndefined campus)) ! 0)
       = Some student"
  by (simp add: post_profile_def bearer_a tokens_ab lower_a_x_edu campus_users
      updateProfile_users Let_def)
     (simp add: campus_def user_a_def lower_a_x_edu)

text \<open>
  C7: with unique emails in \<open>users\<close>, a row whose role is not null keeps its role, its
  club and its email through any sequence of \<open>POST /profile\<close> requests, whoever sends
  them and whatever \<open>role\<close> and \<open>club_id\<close> they carry.  A single request changes a
  row's role only if the role was null and the request's \<open>role\<close> is \<open>'student'\<close>,
  and the role is then \<open>student\<close>; being non-null from then on, it is set at most
  once.
\<close>

theorem profile_role_single_shot:
  assumes "users_constraints w"
  shows "(\<forall>i<length (users w). u_role (users w ! i) \<noteq> None \<longrightarrow>
            u_role (users (post_profile_all jwt_verify qs w) ! i) = u_role (users w ! i)
            \<and> u_club_id (users (post_profile_all jwt_verify qs w) ! i) = u_club_id (users w ! i)
            \<and> u_email (users (post_profile_all jwt_verify qs w) ! i) = u_email (users w ! i))
     \<and> (\<forall>j<length (users w).
            u_role (users (snd (post_profile jwt_verify now auth nm br rn rl cid w)) ! j)
              \<noteq> u_role (users w ! j) \<longrightarrow>
            u_role (users w ! j) = None \<and> rl = JStr ''student''
            \<and> u_role (users (snd (post_profile jwt_verify now auth nm br rn rl cid w)) ! j)
                = Some student)"
proof -
  have kept: "u_role (users (post_profile_all jwt_verify qs w) ! i) = u_role (users w ! i)
            \<and> u_club_id (users (post_profile_all jwt_verify qs w) ! i) = u_club_id (users w ! i)
            \<and> u_email (users (post_profile_all jwt_verify qs w) ! i) = u_email (users w ! i)"
    if "i < length (users w)" "u_role (users w ! i) \<noteq> None" for i
    using post_profile_all_keeps_role [OF assms that, where jwt_verify = jwt_verify and qs = qs]
    by simp
  have set_once: "u_role (users w ! j) = None \<and> rl = JStr ''student''
            \<and> u_role (users (snd (post_profile jwt_verify now auth nm br rn rl cid w)) ! j)
                = Some student"
    if "j < length (users w)"
      "u_role (users (snd (post_profile jwt_verify now auth nm br rn rl cid w)) ! j)
              \<noteq> u_role (users w ! j)" for j
    using post_profile_step(3) [OF assms that] by blast
  from kept set_once show ?thesis by blast
qed

theorem profile_role_single_shot_witness:
  "users_constraints campus
   \<and> u_role (users campus ! 1) = Some student
   \<and> u_role (users (post_profile_all tokens bob_requests campus) ! 1) = Some student
   \<and> u_club_id (users (post_profile_all tokens bob_requests campus) ! 1) = JNull"
proof -
  have len: "(1::nat) < length (users campus)" by (simp add: campus_def)
  have row: "u_role (users campus ! 1) = Some student" "u_club_id (users campus ! 1) = JNull"
    by (simp_all add: campus_def user_b_def)
  from row(1) have set: "u_role (users campus ! 1) \<noteq> None" by simp
  note kept = profile_role_single_shot [OF campus_users_constraints, where jwt_verify = tokens
      and qs = bob_requests, THEN conjunct1, rule_format, OF len set]
  from kept row campus_users_constraints show ?thesis by simp
qed

section \<open>Verification: capacity\<close>

















end
